theory Spec2Isabelle
  imports Complex_Main "HOL-Library.Word"
begin

section \<open>Request bodies: JSON values\<close>

text \<open>
  \<^verbatim>\<open>await req.json()\<close> yields a JSON value, or rejects with a SyntaxError when the
  body text is not JSON. A request body is therefore a \<open>json option\<close>: \<open>None\<close> is the
  body that does not parse. An object is the list of its members, whose keys are
  distinct in a parsed object; a member is looked up with \<open>map_of\<close>, and a member
  that is absent reads as \<open>undefined\<close> (\<open>None\<close>).
\<close>

datatype json =
    JNull
  | JBool bool
  | JNumber real
  | JString string
  | JArray "json list"
  | JObject "(string \<times> json) list"

section \<open>The validator: src/lib/utils/validation.ts\<close>

text \<open>
  \<^verbatim>\<open>postSchema = z.object({ author: z.string().min(1), title: z.string().min(1),
       description: z.string().min(1), imageUrl: z.string().url(), createdAt: z.string() })\<close>

  \<open>safeParse\<close> never throws: it returns the parsed data, or the list of issues, one per
  failed check, in the order of the keys of the shape. Each issue carries the path of
  the value it is about (the key, for a member of the object; the empty path for the
  object itself). The URL check of the library (\<open>new URL(s)\<close> does not throw) is taken
  as the parameter \<open>isUrl\<close>.
\<close>

datatype issue_code = invalid_type | too_small | invalid_string

record issue =
  code :: issue_code
  path :: "string list"
  message :: string

datatype string_check = Min nat | Url

fun getParsedType :: "json option \<Rightarrow> string" where
  "getParsedType None = ''undefined''"
| "getParsedType (Some JNull) = ''null''"
| "getParsedType (Some (JBool b)) = ''boolean''"
| "getParsedType (Some (JNumber x)) = ''number''"
| "getParsedType (Some (JString s)) = ''string''"
| "getParsedType (Some (JArray xs)) = ''array''"
| "getParsedType (Some (JObject kvs)) = ''object''"

definition invalid_type_issue :: "string \<Rightarrow> string list \<Rightarrow> json option \<Rightarrow> issue" where
  "invalid_type_issue expected p v =
     \<lparr>code = invalid_type, path = p,
      message = (if v = None then ''Required''
                 else ''Expected '' @ expected @ '', received '' @ getParsedType v)\<rparr>"

fun dec :: "nat \<Rightarrow> string" where
  "dec n = (if n < 10 then [char_of (48 + n)] else dec (n div 10) @ [char_of (48 + n mod 10)])"

fun string_check_issues :: "(string \<Rightarrow> bool) \<Rightarrow> string list \<Rightarrow> string \<Rightarrow> string_check \<Rightarrow> issue list" where
  "string_check_issues isUrl p s (Min n) =
     (if length s < n
      then [\<lparr>code = too_small, path = p,
             message = ''String must contain at least '' @ dec n @ '' character(s)''\<rparr>]
      else [])"
| "string_check_issues isUrl p s Url =
     (if isUrl s then [] else [\<lparr>code = invalid_string, path = p, message = ''Invalid url''\<rparr>])"

definition z_string :: "(string \<Rightarrow> bool) \<Rightarrow> string_check list \<Rightarrow> string list \<Rightarrow> json option \<Rightarrow> issue list" where
  "z_string isUrl checks p v =
     (case v of
        Some (JString s) \<Rightarrow> concat (map (string_check_issues isUrl p s) checks)
      | _ \<Rightarrow> [invalid_type_issue ''string'' p v])"

definition postSchema :: "(string \<times> string_check list) list" where
  "postSchema =
     [(''author'', [Min 1]),
      (''title'', [Min 1]),
      (''description'', [Min 1]),
      (''imageUrl'', [Url]),
      (''createdAt'', [])]"

record post_data =
  data_author :: string
  data_title :: string
  data_description :: string
  data_imageUrl :: string
  data_createdAt :: string

fun string_member :: "(string \<times> json) list \<Rightarrow> string \<Rightarrow> string" where
  "string_member kvs k = (case map_of kvs k of Some (JString s) \<Rightarrow> s | _ \<Rightarrow> [])"

definition object_issues :: "(string \<Rightarrow> bool) \<Rightarrow> (string \<times> json) list \<Rightarrow> issue list" where
  "object_issues isUrl kvs =
     concat (map (\<lambda>(k, checks). z_string isUrl checks [k] (map_of kvs k)) postSchema)"

definition safeParse :: "(string \<Rightarrow> bool) \<Rightarrow> json \<Rightarrow> issue list + post_data" where
  "safeParse isUrl b =
     (case b of
        JObject kvs \<Rightarrow>
          (if object_issues isUrl kvs = []
           then Inr \<lparr>data_author = string_member kvs ''author'',
                     data_title = string_member kvs ''title'',
                     data_description = string_member kvs ''description'',
                     data_imageUrl = string_member kvs ''imageUrl'',
                     data_createdAt = string_member kvs ''createdAt''\<rparr>
           else Inl (object_issues isUrl kvs))
      | _ \<Rightarrow> Inl [invalid_type_issue ''object'' [] (Some b)])"

section \<open>Identifiers: mongoose.Types.ObjectId\<close>

text \<open>
  An ObjectId is twelve bytes, here a 96-bit word. For a string, \<open>ObjectId.isValid\<close>
  is the test of the constructor: the string is 24 characters, each a hexadecimal digit
  of either case. Casting such a string reads it as a number in base 16;
  \<open>toHexString\<close> writes the 24 lower-case digits.
\<close>

type_synonym objectid = "96 word"

definition hexval :: "char \<Rightarrow> nat option" where
  "hexval c =
     (let n = (of_char c :: nat) in
      if 48 \<le> n \<and> n \<le> 57 then Some (n - 48)
      else if 97 \<le> n \<and> n \<le> 102 then Some (n - 87)
      else if 65 \<le> n \<and> n \<le> 70 then Some (n - 55)
      else None)"

definition hexchar :: "nat \<Rightarrow> char" where
  "hexchar d = char_of (if d < 10 then 48 + d else 87 + d)"

definition ObjectId_isValid :: "string \<Rightarrow> bool" where
  "ObjectId_isValid s = (length s = 24 \<and> list_all (\<lambda>c. hexval c \<noteq> None) s)"

definition fromHex :: "string \<Rightarrow> nat" where
  "fromHex s = foldl (\<lambda>acc c. 16 * acc + (case hexval c of Some d \<Rightarrow> d | None \<Rightarrow> 0)) 0 s"

definition castObjectId :: "string \<Rightarrow> objectid option" where
  "castObjectId s = (if ObjectId_isValid s then Some (word_of_nat (fromHex s)) else None)"

fun hex_digits :: "nat \<Rightarrow> nat \<Rightarrow> string" where
  "hex_digits 0 n = []"
| "hex_digits (Suc k) n = hex_digits k (n div 16) @ [hexchar (n mod 16)]"

definition toHexString :: "objectid \<Rightarrow> string" where
  "toHexString w = hex_digits 24 (unat w)"

section \<open>The document model: src/lib/database/models/Post.ts\<close>

text \<open>
  \<^verbatim>\<open>new Schema({ author, title, description, imageUrl: { type: String, required: true },
       createdAt: { type: Date, default: Date.now } },
     { timestamps: true, collection: "Post" })\<close>

  A stored post carries its identifier, the four strings and the two dates of the
  \<open>timestamps\<close> option (milliseconds since the epoch). The collection is the list of
  its documents in insertion order.
\<close>

record post =
  oid :: objectid
  author :: string
  title :: string
  description :: string
  imageUrl :: string
  createdAt :: int
  updatedAt :: int

datatype db_call =
    ConnectToDB
  | Find
  | FindById string
  | Save objectid
  | FindByIdAndUpdate string
  | FindByIdAndDelete string

record world =
  posts :: "post list"
  connection :: bool
  calls :: "db_call list"

text \<open>
  What a request takes from its surroundings: the clock (\<open>Date.now()\<close>), the identifier
  the driver generates for a new document, and whether the database can be reached when
  a connection has to be opened.
\<close>

record env =
  time_now :: int
  generated_id :: objectid
  db_reachable :: bool

datatype exn =
    SyntaxError
  | ZodError "issue list"
  | ConnectionError
  | CastError
  | ValidationError
  | DuplicateKey
  | UpdateConflict

type_synonym 'a io = "world \<Rightarrow> (exn + 'a) \<times> world"

definition return :: "'a \<Rightarrow> 'a io" where
  "return x w = (Inr x, w)"

definition throw :: "exn \<Rightarrow> 'a io" where
  "throw e w = (Inl e, w)"

definition await :: "'a io \<Rightarrow> ('a \<Rightarrow> 'b io) \<Rightarrow> 'b io" where
  "await m f w = (case m w of (Inl e, w') \<Rightarrow> (Inl e, w') | (Inr x, w') \<Rightarrow> f x w')"

definition called :: "db_call \<Rightarrow> world \<Rightarrow> world" where
  "called c w = w\<lparr>calls := calls w @ [c]\<rparr>"

definition req_json :: "json option \<Rightarrow> json io" where
  "req_json b = (case b of None \<Rightarrow> throw SyntaxError | Some j \<Rightarrow> return j)"

text \<open>
  Modelled from the spec: \<open>connectToDB\<close> of lib/database/database, which is not among
  the sources. The spec has the connection as a shared, lazily initialised, process-wide
  resource reused across requests, and sends a database failure to status 500: the
  handle, once opened, is returned again; opening it fails when the database cannot be
  reached.
\<close>

definition connectToDB :: "env \<Rightarrow> unit io" where
  "connectToDB e w =
     (let w1 = called ConnectToDB w in
      if connection w1 then (Inr (), w1)
      else if db_reachable e then (Inr (), w1\<lparr>connection := True\<rparr>)
      else (Inl ConnectionError, w1))"

fun update_first :: "('a \<Rightarrow> bool) \<Rightarrow> ('a \<Rightarrow> 'a) \<Rightarrow> 'a list \<Rightarrow> 'a list" where
  "update_first P f [] = []"
| "update_first P f (x # xs) = (if P x then f x # xs else x # update_first P f xs)"

fun delete_first :: "('a \<Rightarrow> bool) \<Rightarrow> 'a list \<Rightarrow> 'a list" where
  "delete_first P [] = []"
| "delete_first P (x # xs) = (if P x then xs else x # delete_first P xs)"

text \<open>
  \<open>new Post({ title, description, imageUrl, author })\<close>: the identifier is generated,
  \<open>createdAt\<close> takes its default \<open>Date.now\<close>, as no value is given for it; \<open>save\<close>
  writes \<open>updatedAt\<close> at the same reading of the clock.
\<close>

definition new_Post :: "env \<Rightarrow> string \<Rightarrow> string \<Rightarrow> string \<Rightarrow> string \<Rightarrow> post" where
  "new_Post e title' description' imageUrl' author' =
     \<lparr>oid = generated_id e, author = author', title = title', description = description',
      imageUrl = imageUrl', createdAt = time_now e, updatedAt = time_now e\<rparr>"

text \<open>
  \<open>save\<close> validates the document against the schema (a required string is not empty)
  and inserts it; the identifier is the unique key of the collection.
\<close>

definition Post_save :: "post \<Rightarrow> unit io" where
  "Post_save d w =
     (let w1 = called (Save (oid d)) w in
      if author d = [] \<or> title d = [] \<or> description d = [] \<or> imageUrl d = []
      then (Inl ValidationError, w1)
      else if find (\<lambda>x. oid x = oid d) (posts w1) \<noteq> None then (Inl DuplicateKey, w1)
      else (Inr (), w1\<lparr>posts := posts w1 @ [d]\<rparr>))"

definition Post_find :: "post list io" where
  "Post_find w = (let w1 = called Find w in (Inr (posts w1), w1))"

definition Post_findById :: "string \<Rightarrow> post option io" where
  "Post_findById id' w =
     (let w1 = called (FindById id') w in
      case castObjectId id' of
        None \<Rightarrow> (Inl CastError, w1)
      | Some k \<Rightarrow> (Inr (find (\<lambda>x. oid x = k) (posts w1)), w1))"

text \<open>
  \<open>findByIdAndUpdate(id, data, { new: true })\<close> on a schema with \<open>timestamps\<close>: the
  option takes \<open>createdAt\<close> out of the update when it is truthy, that is, a string
  that is not empty, and sets \<open>updatedAt\<close> to the current time; the other members of
  the data are set, and the document as updated is returned, or null when no document
  has the identifier. An empty \<open>createdAt\<close> stays in the update, where it is cast to
  null and meets the \<open>createdAt\<close> that the option writes for an insertion: the
  database refuses an update that names one path twice, whether or not a document has
  the identifier, so the call throws and nothing is written.
\<close>

definition apply_update :: "env \<Rightarrow> post_data \<Rightarrow> post \<Rightarrow> post" where
  "apply_update e data d =
     d\<lparr>author := data_author data, title := data_title data,
       description := data_description data, imageUrl := data_imageUrl data,
       updatedAt := time_now e\<rparr>"

definition Post_findByIdAndUpdate :: "env \<Rightarrow> string \<Rightarrow> post_data \<Rightarrow> post option io" where
  "Post_findByIdAndUpdate e id' data w =
     (let w1 = called (FindByIdAndUpdate id') w in
      case castObjectId id' of
        None \<Rightarrow> (Inl CastError, w1)
      | Some k \<Rightarrow>
          if data_createdAt data = [] then (Inl UpdateConflict, w1)
          else
            (case find (\<lambda>x. oid x = k) (posts w1) of
               None \<Rightarrow> (Inr None, w1)
             | Some d \<Rightarrow>
                 (Inr (Some (apply_update e data d)),
                  w1\<lparr>posts := update_first (\<lambda>x. oid x = k) (apply_update e data) (posts w1)\<rparr>)))"

definition Post_findByIdAndDelete :: "string \<Rightarrow> post option io" where
  "Post_findByIdAndDelete id' w =
     (let w1 = called (FindByIdAndDelete id') w in
      case castObjectId id' of
        None \<Rightarrow> (Inl CastError, w1)
      | Some k \<Rightarrow>
          (case find (\<lambda>x. oid x = k) (posts w1) of
             None \<Rightarrow> (Inr None, w1)
           | Some d \<Rightarrow> (Inr (Some d), w1\<lparr>posts := delete_first (\<lambda>x. oid x = k) (posts w1)\<rparr>)))"

section \<open>Responses\<close>

record field_error =
  field :: "string option"
  msg :: string

datatype body =
    JsonText string
  | ErrorObj string
  | ErrorDetails string exn
  | FieldErrors "field_error list"
  | IssueList "issue list"
  | PostDoc post
  | PostDocs "post list"
  | Updated string post
  | Deleted string post

record response =
  status :: nat
  body :: body

section \<open>The collection endpoint: src/app/api/posts/route.ts\<close>

definition GET_posts_try :: "env \<Rightarrow> response io" where
  "GET_posts_try e =
     await (connectToDB e) (\<lambda>_.
     await Post_find (\<lambda>ps.
     return \<lparr>status = 200, body = PostDocs ps\<rparr>))"

definition GET_posts :: "env \<Rightarrow> world \<Rightarrow> response \<times> world" where
  "GET_posts e w =
     (case GET_posts_try e w of
        (Inr r, w') \<Rightarrow> (r, w')
      | (Inl err, w') \<Rightarrow>
          (\<lparr>status = 500, body = ErrorDetails ''Failed to retrieve posts'' err\<rparr>, w'))"

definition issue_field :: "issue \<Rightarrow> field_error" where
  "issue_field i = \<lparr>field = (case path i of [] \<Rightarrow> None | k # _ \<Rightarrow> Some k), msg = message i\<rparr>"

definition POST_try :: "(string \<Rightarrow> bool) \<Rightarrow> env \<Rightarrow> json option \<Rightarrow> response io" where
  "POST_try isUrl e req =
     await (req_json req) (\<lambda>b.
     case safeParse isUrl b of
       Inl issues \<Rightarrow> return \<lparr>status = 400, body = FieldErrors (map issue_field issues)\<rparr>
     | Inr data \<Rightarrow>
         await (connectToDB e) (\<lambda>_.
         await (Post_save (new_Post e (data_title data) (data_description data)
                             (data_imageUrl data) (data_author data))) (\<lambda>_.
         return \<lparr>status = 201, body = JsonText ''Post has been created''\<rparr>)))"

definition POST :: "(string \<Rightarrow> bool) \<Rightarrow> env \<Rightarrow> json option \<Rightarrow> world \<Rightarrow> response \<times> world" where
  "POST isUrl e req w =
     (case POST_try isUrl e req w of
        (Inr r, w') \<Rightarrow> (r, w')
      | (Inl (ZodError (i # _)), w') \<Rightarrow> (\<lparr>status = 400, body = ErrorObj (message i)\<rparr>, w')
      | (Inl _, w') \<Rightarrow> (\<lparr>status = 500, body = ErrorObj ''Failed to create Post''\<rparr>, w'))"

section \<open>The single-resource endpoint: src/app/api/posts/[id]/route.ts\<close>

definition GET_try :: "env \<Rightarrow> string \<Rightarrow> response io" where
  "GET_try e id' =
     await (connectToDB e) (\<lambda>_.
     if \<not> ObjectId_isValid id'
     then return \<lparr>status = 400, body = ErrorObj ''Invalid ID format''\<rparr>
     else
       await (Post_findById id') (\<lambda>p.
       case p of
         None \<Rightarrow> return \<lparr>status = 404, body = JsonText ''Post not found''\<rparr>
       | Some d \<Rightarrow> return \<lparr>status = 200, body = PostDoc d\<rparr>))"

definition GET :: "env \<Rightarrow> string \<Rightarrow> world \<Rightarrow> response \<times> world" where
  "GET e id' w =
     (case GET_try e id' w of
        (Inr r, w') \<Rightarrow> (r, w')
      | (Inl _, w') \<Rightarrow> (\<lparr>status = 500, body = ErrorObj ''Failed to fetch post''\<rparr>, w'))"

definition PUT_try :: "(string \<Rightarrow> bool) \<Rightarrow> env \<Rightarrow> string \<Rightarrow> json option \<Rightarrow> response io" where
  "PUT_try isUrl e id' req =
     await (req_json req) (\<lambda>b.
     case safeParse isUrl b of
       Inl issues \<Rightarrow> return \<lparr>status = 400, body = IssueList issues\<rparr>
     | Inr data \<Rightarrow>
         await (connectToDB e) (\<lambda>_.
         await (Post_findByIdAndUpdate e id' data) (\<lambda>updatedPost.
         case updatedPost of
           None \<Rightarrow> return \<lparr>status = 404, body = ErrorObj ''Post not found''\<rparr>
         | Some d \<Rightarrow> return \<lparr>status = 200, body = Updated ''Post updated successfully'' d\<rparr>)))"

definition PUT :: "(string \<Rightarrow> bool) \<Rightarrow> env \<Rightarrow> string \<Rightarrow> json option \<Rightarrow> world \<Rightarrow> response \<times> world" where
  "PUT isUrl e id' req w =
     (if \<not> ObjectId_isValid id'
      then (\<lparr>status = 400, body = ErrorObj ''Invalid ID format''\<rparr>, w)
      else
        (case PUT_try isUrl e id' req w of
           (Inr r, w') \<Rightarrow> (r, w')
         | (Inl _, w') \<Rightarrow> (\<lparr>status = 500, body = ErrorObj ''Internal server error''\<rparr>, w')))"

definition DELETE_try :: "env \<Rightarrow> string \<Rightarrow> response io" where
  "DELETE_try e id' =
     await (connectToDB e) (\<lambda>_.
     if \<not> ObjectId_isValid id'
     then return \<lparr>status = 400, body = ErrorObj ''Invalid ID format''\<rparr>
     else
       await (Post_findByIdAndDelete id') (\<lambda>deletedPost.
       case deletedPost of
         None \<Rightarrow> return \<lparr>status = 404, body = ErrorObj ''Post not found''\<rparr>
       | Some d \<Rightarrow> return \<lparr>status = 200, body = Deleted ''Post deleted successfully'' d\<rparr>))"

definition DELETE :: "env \<Rightarrow> string \<Rightarrow> world \<Rightarrow> response \<times> world" where
  "DELETE e id' w =
     (if id' = []
      then (\<lparr>status = 400, body = ErrorObj ''ID is required''\<rparr>, w)
      else
        (case DELETE_try e id' w of
           (Inr r, w') \<Rightarrow> (r, w')
         | (Inl _, w') \<Rightarrow> (\<lparr>status = 500, body = ErrorObj ''Internal server error''\<rparr>, w')))"

section \<open>Requests in sequence\<close>

datatype request =
    ListPosts
  | CreatePost "json option"
  | GetPost string
  | UpdatePost string "json option"
  | DeletePost string

fun handle :: "(string \<Rightarrow> bool) \<Rightarrow> env \<Rightarrow> request \<Rightarrow> world \<Rightarrow> response \<times> world" where
  "handle isUrl e ListPosts w = GET_posts e w"
| "handle isUrl e (CreatePost req) w = POST isUrl e req w"
| "handle isUrl e (GetPost id') w = GET e id' w"
| "handle isUrl e (UpdatePost id' req) w = PUT isUrl e id' req w"
| "handle isUrl e (DeletePost id') w = DELETE e id' w"

fun run :: "(string \<Rightarrow> bool) \<Rightarrow> (env \<times> request) list \<Rightarrow> world \<Rightarrow> world" where
  "run isUrl [] w = w"
| "run isUrl ((e, r) # rest) w = run isUrl rest (snd (handle isUrl e r w))"

section \<open>Properties of requests and stores\<close>

text \<open>The body parses as JSON and the validator accepts it.\<close>

definition passes_validator :: "(string \<Rightarrow> bool) \<Rightarrow> json option \<Rightarrow> bool" where
  "passes_validator isUrl req =
     (case req of
        None \<Rightarrow> False
      | Some b \<Rightarrow> (case safeParse isUrl b of Inl _ \<Rightarrow> False | Inr _ \<Rightarrow> True))"

text \<open>
  The constraints of the validator in the words of the spec: author, title and
  description are non-empty strings, imageUrl is a string of the shape of a URL,
  createdAt is a string.
\<close>

definition is_string :: "json option \<Rightarrow> bool" where
  "is_string v = (case v of Some (JString s) \<Rightarrow> True | _ \<Rightarrow> False)"

definition satisfies_constraints :: "(string \<Rightarrow> bool) \<Rightarrow> (string \<times> json) list \<Rightarrow> bool" where
  "satisfies_constraints isUrl kvs =
     (is_string (map_of kvs ''author'') \<and> string_member kvs ''author'' \<noteq> [] \<and>
      is_string (map_of kvs ''title'') \<and> string_member kvs ''title'' \<noteq> [] \<and>
      is_string (map_of kvs ''description'') \<and> string_member kvs ''description'' \<noteq> [] \<and>
      is_string (map_of kvs ''imageUrl'') \<and> isUrl (string_member kvs ''imageUrl'') \<and>
      is_string (map_of kvs ''createdAt''))"

text \<open>What the validator asks of the fields it shares with a stored post.\<close>

definition post_valid :: "(string \<Rightarrow> bool) \<Rightarrow> post \<Rightarrow> bool" where
  "post_valid isUrl d =
     (author d \<noteq> [] \<and> title d \<noteq> [] \<and> description d \<noteq> [] \<and> isUrl (imageUrl d))"

definition store_valid :: "(string \<Rightarrow> bool) \<Rightarrow> post list \<Rightarrow> bool" where
  "store_valid isUrl ps = list_all (post_valid isUrl) ps"

text \<open>The calls to the database that operate on documents.\<close>

definition document_calls :: "db_call list \<Rightarrow> db_call list" where
  "document_calls cs = filter (\<lambda>c. c \<noteq> ConnectToDB) cs"

text \<open>The connection can be had: it is open already, or the database can be reached.\<close>

definition connection_available :: "env \<Rightarrow> world \<Rightarrow> bool" where
  "connection_available e w = (connection w \<or> db_reachable e)"

definition lookup :: "objectid \<Rightarrow> post list \<Rightarrow> post option" where
  "lookup k ps = find (\<lambda>x. oid x = k) ps"

text \<open>The body is an object whose \<open>createdAt\<close> is a string that is not empty.\<close>

definition createdAt_given :: "json option \<Rightarrow> bool" where
  "createdAt_given req =
     (case req of
        Some (JObject kvs) \<Rightarrow> string_member kvs ''createdAt'' \<noteq> []
      | _ \<Rightarrow> False)"

text \<open>The request is an update or a delete of the post with the identifier \<open>k\<close>.\<close>

fun touches :: "objectid \<Rightarrow> request \<Rightarrow> bool" where
  "touches k (UpdatePost id' req) = (castObjectId id' = Some k)"
| "touches k (DeletePost id') = (castObjectId id' = Some k)"
| "touches k r = False"

definition leaves_alone :: "objectid \<Rightarrow> (env \<times> request) list \<Rightarrow> bool" where
  "leaves_alone k steps = list_all (\<lambda>(e, r). \<not> touches k r) steps"

text \<open>What a fetch returns for a post looked up in the store.\<close>

definition fetched :: "post option \<Rightarrow> response" where
  "fetched p =
     (case p of
        None \<Rightarrow> \<lparr>status = 404, body = JsonText ''Post not found''\<rparr>
      | Some d \<Rightarrow> \<lparr>status = 200, body = PostDoc d\<rparr>)"

section \<open>Sample requests\<close>

text \<open>
  The values at which the theorems below are evaluated. \<open>example_isUrl\<close> stands for the
  URL check there; the theorems themselves hold for every URL check.
\<close>

definition example_isUrl :: "string \<Rightarrow> bool" where
  "example_isUrl s = (take 8 s = ''https://'' \<and> 8 < length s)"

definition example_env :: env where
  "example_env = \<lparr>time_now = 1700000000000, generated_id = 6, db_reachable = True\<rparr>"

definition example_body :: "string \<Rightarrow> json" where
  "example_body c =
     JObject [(''author'', JString ''John Doe''), (''title'', JString ''My First Post''),
              (''description'', JString ''This is a sample post description.''),
              (''imageUrl'', JString ''https://example.com/image.jpg''),
              (''createdAt'', JString c)]"

definition empty_world :: world where
  "empty_world = \<lparr>posts = [], connection = False, calls = []\<rparr>"

definition example_post :: post where
  "example_post =
     \<lparr>oid = 5, author = ''Jane Roe'', title = ''Old title'', description = ''Old description'',
      imageUrl = ''https://example.com/old.jpg'',
      createdAt = 1600000000000, updatedAt = 1600000000000\<rparr>"

definition example_world :: world where
  "example_world = \<lparr>posts = [example_post], connection = True, calls = []\<rparr>"

section \<open>Identifiers: writing and reading back\<close>

lemma hexval_hexchar: "d < 16 \<Longrightarrow> hexval (hexchar d) = Some d"
  by (auto simp: hexval_def hexchar_def Let_def)

lemma fromHex_snoc:
  "fromHex (s @ [c]) = 16 * fromHex s + (case hexval c of Some d \<Rightarrow> d | None \<Rightarrow> 0)"
  by (simp add: fromHex_def)

lemma fromHex_hex_digits: "fromHex (hex_digits k n) = n mod 16 ^ k"
proof (induction k arbitrary: n)
  case 0
  show ?case by (simp add: fromHex_def)
next
  case (Suc k)
  have "fromHex (hex_digits (Suc k) n) = 16 * (n div 16 mod 16 ^ k) + n mod 16"
    by (simp add: fromHex_snoc Suc.IH hexval_hexchar)
  also have "\<dots> = n mod 16 ^ Suc k"
    by (simp add: mod_mult2_eq)
  finally show ?case .
qed

lemma length_hex_digits: "length (hex_digits k n) = k"
  by (induction k arbitrary: n) simp_all

lemma hex_digits_all_hex: "list_all (\<lambda>c. hexval c \<noteq> None) (hex_digits k n)"
  by (induction k arbitrary: n) (simp_all add: hexval_hexchar)

lemma isValid_toHexString: "ObjectId_isValid (toHexString k)"
  using hex_digits_all_hex [of 24 "unat k"]
  by (simp add: ObjectId_isValid_def toHexString_def length_hex_digits)

lemma castObjectId_toHexString: "castObjectId (toHexString k) = Some k"
proof -
  have "unat k < 2 ^ 96" using unsigned_less [of k] by simp
  then have "unat k < 16 ^ 24" by simp
  then have "fromHex (toHexString k) = unat k"
    by (simp add: toHexString_def fromHex_hex_digits)
  then show ?thesis
    by (simp add: castObjectId_def isValid_toHexString)
qed

section \<open>The validator\<close>

lemmas io_defs = await_def return_def throw_def called_def req_json_def connectToDB_def

lemma string_check_issues_path: "i \<in> set (string_check_issues isUrl p s c) \<Longrightarrow> path i = p"
  by (cases c) (auto split: if_splits)

lemma z_string_path: "i \<in> set (z_string isUrl checks p v) \<Longrightarrow> path i = p"
  by (auto simp: z_string_def invalid_type_issue_def string_check_issues_path
           split: option.splits json.splits)

lemma z_string_missing: "z_string isUrl checks p None \<noteq> []"
  by (simp add: z_string_def)

lemma z_string_not_string: "\<not> is_string v \<Longrightarrow> z_string isUrl checks p v \<noteq> []"
  by (auto simp: z_string_def is_string_def split: option.splits json.splits)

lemma z_string_not_url: "\<not> isUrl s \<Longrightarrow> z_string isUrl [Url] p (Some (JString s)) \<noteq> []"
  by (simp add: z_string_def)

lemma object_issues_names_field:
  assumes "(k, checks) \<in> set postSchema" and "z_string isUrl checks [k] (map_of kvs k) \<noteq> []"
  shows "\<exists>i \<in> set (object_issues isUrl kvs). path i = [k]"
proof -
  from assms(2) obtain i where i: "i \<in> set (z_string isUrl checks [k] (map_of kvs k))"
    by (cases "z_string isUrl checks [k] (map_of kvs k)") auto
  then have "path i = [k]" by (rule z_string_path)
  moreover from i assms(1) have "i \<in> set (object_issues isUrl kvs)"
    unfolding object_issues_def by (auto intro!: bexI [of _ "(k, checks)"])
  ultimately show ?thesis by blast
qed

lemma safeParse_object_issues:
  "object_issues isUrl kvs \<noteq> [] \<Longrightarrow> safeParse isUrl (JObject kvs) = Inl (object_issues isUrl kvs)"
  by (simp add: safeParse_def)

lemma issue_field_path: "path i = k # ks \<Longrightarrow> field (issue_field i) = Some k"
  by (simp add: issue_field_def)

lemma postSchema_fields:
  "map fst postSchema = [''author'', ''title'', ''description'', ''imageUrl'', ''createdAt'']"
  by (simp add: postSchema_def)

lemma z_string_Min_empty:
  "z_string isUrl [Min (Suc 0)] p (map_of kvs k) = [] \<longleftrightarrow>
     is_string (map_of kvs k) \<and> string_member kvs k \<noteq> []"
  by (auto simp: z_string_def is_string_def split: option.splits json.splits)

lemma z_string_Url_empty:
  "z_string isUrl [Url] p (map_of kvs k) = [] \<longleftrightarrow>
     is_string (map_of kvs k) \<and> isUrl (string_member kvs k)"
  by (auto simp: z_string_def is_string_def split: option.splits json.splits)

lemma z_string_plain_empty:
  "z_string isUrl [] p (map_of kvs k) = [] \<longleftrightarrow> is_string (map_of kvs k)"
  by (auto simp: z_string_def is_string_def split: option.splits json.splits)

lemma object_issues_empty_iff:
  "object_issues isUrl kvs = [] \<longleftrightarrow> satisfies_constraints isUrl kvs"
  unfolding object_issues_def postSchema_def satisfies_constraints_def
  by (simp add: z_string_Min_empty z_string_Url_empty z_string_plain_empty del: string_member.simps)

lemma safeParse_Inr_iff:
  "safeParse isUrl b = Inr data \<longleftrightarrow>
     (\<exists>kvs. b = JObject kvs \<and> satisfies_constraints isUrl kvs \<and>
        data = \<lparr>data_author = string_member kvs ''author'',
                data_title = string_member kvs ''title'',
                data_description = string_member kvs ''description'',
                data_imageUrl = string_member kvs ''imageUrl'',
                data_createdAt = string_member kvs ''createdAt''\<rparr>)"
  by (cases b) (auto simp: safeParse_def object_issues_empty_iff simp del: string_member.simps)

lemma safeParse_Inr_valid:
  assumes "safeParse isUrl b = Inr data"
  shows "data_author data \<noteq> [] \<and> data_title data \<noteq> [] \<and> data_description data \<noteq> [] \<and>
         isUrl (data_imageUrl data)"
proof -
  from assms obtain kvs where "satisfies_constraints isUrl kvs"
    and "data = \<lparr>data_author = string_member kvs ''author'',
                data_title = string_member kvs ''title'',
                data_description = string_member kvs ''description'',
                data_imageUrl = string_member kvs ''imageUrl'',
                data_createdAt = string_member kvs ''createdAt''\<rparr>"
    unfolding safeParse_Inr_iff by blast
  then show ?thesis
    by (simp add: satisfies_constraints_def del: string_member.simps)
qed

lemma passes_validator_cases:
  "passes_validator isUrl req \<Longrightarrow> \<exists>b data. req = Some b \<and> safeParse isUrl b = Inr data"
  by (auto simp: passes_validator_def split: option.splits sum.splits)

lemma passes_validator_iff:
  "passes_validator isUrl req \<longleftrightarrow>
     (\<exists>kvs. req = Some (JObject kvs) \<and> satisfies_constraints isUrl kvs)"
proof
  assume "passes_validator isUrl req"
  then obtain b data where "req = Some b" and "safeParse isUrl b = Inr data"
    using passes_validator_cases by blast
  then show "\<exists>kvs. req = Some (JObject kvs) \<and> satisfies_constraints isUrl kvs"
    unfolding safeParse_Inr_iff by blast
next
  assume "\<exists>kvs. req = Some (JObject kvs) \<and> satisfies_constraints isUrl kvs"
  then obtain kvs where "req = Some (JObject kvs)" and "object_issues isUrl kvs = []"
    unfolding object_issues_empty_iff by blast
  then show "passes_validator isUrl req"
    by (simp add: passes_validator_def safeParse_def)
qed

section \<open>The database layer\<close>

lemma connectToDB_ok:
  "connection_available e w \<Longrightarrow>
   connectToDB e w = (Inr (), (called ConnectToDB w)\<lparr>connection := True\<rparr>)"
  by (auto simp: connectToDB_def connection_available_def called_def Let_def)

lemma connectToDB_posts: "posts (snd (connectToDB e w)) = posts w"
  by (simp add: connectToDB_def called_def Let_def)

lemma castObjectId_valid: "castObjectId s = Some k \<Longrightarrow> ObjectId_isValid s"
  by (simp add: castObjectId_def split: if_splits)

lemma isValid_nonempty: "ObjectId_isValid s \<Longrightarrow> s \<noteq> []"
  by (auto simp: ObjectId_isValid_def)

lemma find_update_first:
  "find P xs = Some d \<Longrightarrow> P (f d) \<Longrightarrow> find P (update_first P f xs) = Some (f d)"
  by (induction xs) (auto split: if_splits)

lemma find_append_new:
  "find P xs = None \<Longrightarrow> P d \<Longrightarrow> find P (xs @ [d]) = Some d"
  by (induction xs) (auto split: if_splits)

lemma find_Some_holds: "find P xs = Some d \<Longrightarrow> P d"
  by (induction xs) (auto split: if_splits)

lemma update_first_none: "find P xs = None \<Longrightarrow> update_first P f xs = xs"
  by (induction xs) (auto split: if_splits)

lemma find_update_first_other:
  "(\<And>x. Q (f x) = Q x) \<Longrightarrow> (\<And>x. P x \<Longrightarrow> \<not> Q x) \<Longrightarrow>
   find Q (update_first P f xs) = find Q xs"
  by (induction xs) auto

lemma find_delete_first_other:
  "(\<And>x. P x \<Longrightarrow> \<not> Q x) \<Longrightarrow> find Q (delete_first P xs) = find Q xs"
  by (induction xs) auto

lemma find_append_Some: "find Q xs = Some d \<Longrightarrow> find Q (xs @ ys) = Some d"
  by (induction xs) (auto split: if_splits)

lemma find_snoc_other: "\<not> Q d \<Longrightarrow> find Q (xs @ [d]) = find Q xs"
  by (induction xs) auto

lemma list_all_update_first:
  "list_all Q xs \<Longrightarrow> (\<And>x. Q x \<Longrightarrow> Q (f x)) \<Longrightarrow> list_all Q (update_first P f xs)"
  by (induction xs) auto

lemma list_all_delete_first: "list_all Q xs \<Longrightarrow> list_all Q (delete_first P xs)"
  by (induction xs) auto

section \<open>What each handler answers\<close>

lemma POST_invalid:
  "safeParse isUrl b = Inl issues \<Longrightarrow>
   POST isUrl e (Some b) w = (\<lparr>status = 400, body = FieldErrors (map issue_field issues)\<rparr>, w)"
  by (simp add: POST_def POST_try_def io_defs)

lemma POST_created:
  assumes "safeParse isUrl b = Inr data" and "connection_available e w"
    and "lookup (generated_id e) (posts w) = None" and "data_imageUrl data \<noteq> []"
  shows "POST isUrl e (Some b) w =
           (\<lparr>status = 201, body = JsonText ''Post has been created''\<rparr>,
            w\<lparr>connection := True, calls := calls w @ [ConnectToDB, Save (generated_id e)],
              posts := posts w @ [new_Post e (data_title data) (data_description data)
                                   (data_imageUrl data) (data_author data)]\<rparr>)"
  using assms safeParse_Inr_valid [OF assms(1)]
  by (simp add: POST_def POST_try_def await_def connectToDB_ok Post_save_def new_Post_def
      called_def return_def lookup_def req_json_def)

lemma GET_found:
  assumes "castObjectId id' = Some k" and "lookup k (posts w) = Some d"
    and "connection_available e w"
  shows "fst (GET e id' w) = \<lparr>status = 200, body = PostDoc d\<rparr>"
  using assms castObjectId_valid [OF assms(1)]
  by (simp add: GET_def GET_try_def await_def connectToDB_ok Post_findById_def called_def
      return_def lookup_def)

lemma GET_missing:
  assumes "castObjectId id' = Some k" and "lookup k (posts w) = None"
    and "connection_available e w"
  shows "GET e id' w = (\<lparr>status = 404, body = JsonText ''Post not found''\<rparr>,
           w\<lparr>connection := True, calls := calls w @ [ConnectToDB, FindById id']\<rparr>)"
  using assms castObjectId_valid [OF assms(1)]
  by (simp add: GET_def GET_try_def await_def connectToDB_ok Post_findById_def called_def
      return_def lookup_def)

lemma DELETE_missing:
  assumes "castObjectId id' = Some k" and "lookup k (posts w) = None"
    and "connection_available e w"
  shows "DELETE e id' w = (\<lparr>status = 404, body = ErrorObj ''Post not found''\<rparr>,
           w\<lparr>connection := True, calls := calls w @ [ConnectToDB, FindByIdAndDelete id']\<rparr>)"
  using assms castObjectId_valid [OF assms(1)] isValid_nonempty [OF castObjectId_valid [OF assms(1)]]
  by (simp add: DELETE_def DELETE_try_def await_def connectToDB_ok Post_findByIdAndDelete_def
      called_def return_def lookup_def)

lemma PUT_missing:
  assumes "castObjectId id' = Some k" and "lookup k (posts w) = None"
    and "connection_available e w" and "safeParse isUrl b = Inr data"
    and "data_createdAt data \<noteq> []"
  shows "PUT isUrl e id' (Some b) w = (\<lparr>status = 404, body = ErrorObj ''Post not found''\<rparr>,
           w\<lparr>connection := True, calls := calls w @ [ConnectToDB, FindByIdAndUpdate id']\<rparr>)"
  using assms castObjectId_valid [OF assms(1)]
  by (simp add: PUT_def PUT_try_def await_def connectToDB_ok Post_findByIdAndUpdate_def
      called_def return_def lookup_def req_json_def)

lemma PUT_found:
  assumes "castObjectId id' = Some k" and "lookup k (posts w) = Some d"
    and "connection_available e w" and "safeParse isUrl b = Inr data"
    and "data_createdAt data \<noteq> []"
  shows "PUT isUrl e id' (Some b) w =
           (\<lparr>status = 200, body = Updated ''Post updated successfully'' (apply_update e data d)\<rparr>,
            w\<lparr>connection := True, calls := calls w @ [ConnectToDB, FindByIdAndUpdate id'],
              posts := update_first (\<lambda>x. oid x = k) (apply_update e data) (posts w)\<rparr>)"
  using assms castObjectId_valid [OF assms(1)]
  by (simp add: PUT_def PUT_try_def await_def connectToDB_ok Post_findByIdAndUpdate_def
      called_def return_def lookup_def req_json_def)

lemma GET_fetched:
  assumes "castObjectId id' = Some k" and "connection_available e w"
  shows "fst (GET e id' w) = fetched (lookup k (posts w))"
proof (cases "lookup k (posts w)")
  case None
  then show ?thesis using GET_missing [OF assms(1) None assms(2)] by (simp add: fetched_def)
next
  case (Some d)
  then show ?thesis using GET_found [OF assms(1) Some assms(2)] by (simp add: fetched_def)
qed

lemma createdAt_given_data:
  "safeParse isUrl b = Inr data \<Longrightarrow> createdAt_given (Some b) \<longleftrightarrow> data_createdAt data \<noteq> []"
  by (cases b) (auto simp: createdAt_given_def safeParse_def split: if_splits
      simp del: string_member.simps)

text \<open>
  A payload whose \<open>createdAt\<close> is the empty string passes the validator; the update
  made from it is refused, so the answer is 500 and nothing is written, whether or not
  a post has the identifier.
\<close>

lemma PUT_empty_createdAt:
  assumes "castObjectId id' = Some k" and "connection_available e w"
    and "safeParse isUrl b = Inr data" and "data_createdAt data = []"
  shows "PUT isUrl e id' (Some b) w =
           (\<lparr>status = 500, body = ErrorObj ''Internal server error''\<rparr>,
            w\<lparr>connection := True, calls := calls w @ [ConnectToDB, FindByIdAndUpdate id']\<rparr>)"
  using assms castObjectId_valid [OF assms(1)]
  by (simp add: PUT_def PUT_try_def await_def connectToDB_ok Post_findByIdAndUpdate_def
      called_def return_def req_json_def)

section \<open>What each handler does to the store\<close>

lemma POST_posts:
  "posts (snd (POST isUrl e req w)) = posts w \<or>
   (\<exists>b data. req = Some b \<and> safeParse isUrl b = Inr data \<and>
      posts (snd (POST isUrl e req w)) =
        posts w @ [new_Post e (data_title data) (data_description data)
                     (data_imageUrl data) (data_author data)])"
  by (auto simp: POST_def POST_try_def await_def connectToDB_def Post_save_def
      called_def return_def throw_def req_json_def Let_def
      split: option.splits sum.splits if_splits)

lemma PUT_posts:
  "posts (snd (PUT isUrl e id' req w)) = posts w \<or>
   (\<exists>b data k. req = Some b \<and> safeParse isUrl b = Inr data \<and> castObjectId id' = Some k \<and>
      posts (snd (PUT isUrl e id' req w)) =
        update_first (\<lambda>x. oid x = k) (apply_update e data) (posts w))"
  by (auto simp: PUT_def PUT_try_def await_def connectToDB_def Post_findByIdAndUpdate_def
      called_def return_def throw_def req_json_def Let_def
      split: option.splits sum.splits if_splits)

lemma DELETE_posts:
  "posts (snd (DELETE e id' w)) = posts w \<or>
   (\<exists>k. castObjectId id' = Some k \<and>
      posts (snd (DELETE e id' w)) = delete_first (\<lambda>x. oid x = k) (posts w))"
  by (auto simp: DELETE_def DELETE_try_def await_def connectToDB_def Post_findByIdAndDelete_def
      called_def return_def throw_def Let_def
      split: option.splits sum.splits if_splits)

lemma GET_keeps_posts [simp]: "posts (snd (GET e id' w)) = posts w"
  by (auto simp: GET_def GET_try_def await_def connectToDB_def Post_findById_def
      called_def return_def throw_def Let_def
      split: option.splits sum.splits if_splits)

lemma GET_posts_keeps_posts [simp]: "posts (snd (GET_posts e w)) = posts w"
  by (auto simp: GET_posts_def GET_posts_try_def await_def connectToDB_def Post_find_def
      called_def return_def throw_def Let_def
      split: option.splits sum.splits if_splits)

lemma post_valid_new:
  "safeParse isUrl b = Inr data \<Longrightarrow>
   post_valid isUrl (new_Post e (data_title data) (data_description data)
                       (data_imageUrl data) (data_author data))"
  using safeParse_Inr_valid [of isUrl b data] by (simp add: post_valid_def new_Post_def)

lemma post_valid_update:
  "safeParse isUrl b = Inr data \<Longrightarrow> post_valid isUrl (apply_update e data d)"
  using safeParse_Inr_valid [of isUrl b data] by (simp add: post_valid_def apply_update_def)

lemma handle_store_valid:
  assumes "store_valid isUrl (posts w)"
  shows "store_valid isUrl (posts (snd (handle isUrl e r w)))"
proof (cases r)
  case ListPosts
  then show ?thesis using assms by simp
next
  case (CreatePost req)
  then show ?thesis
    using assms POST_posts [of isUrl e req w]
    by (auto simp: store_valid_def post_valid_new)
next
  case (GetPost id')
  then show ?thesis using assms by simp
next
  case (UpdatePost id' req)
  then show ?thesis
    using assms PUT_posts [of isUrl e id' req w]
    by (auto simp: store_valid_def post_valid_update intro!: list_all_update_first)
next
  case (DeletePost id')
  then show ?thesis
    using assms DELETE_posts [of e id' w]
    by (auto simp: store_valid_def intro!: list_all_delete_first)
qed

lemma run_store_valid:
  "store_valid isUrl (posts w) \<Longrightarrow> store_valid isUrl (posts (run isUrl steps w))"
proof (induction steps arbitrary: w)
  case Nil
  then show ?case by simp
next
  case (Cons step steps)
  obtain e r where "step = (e, r)" by (cases step)
  then show ?case
    using Cons.IH [OF handle_store_valid [OF Cons.prems, of e r]] by simp
qed

lemma handle_lookup_kept:
  assumes "lookup k (posts w) = Some d" and "\<not> touches k r"
  shows "lookup k (posts (snd (handle isUrl e r w))) = Some d"
proof (cases r)
  case ListPosts
  then show ?thesis using assms by simp
next
  case (CreatePost req)
  then show ?thesis
    using assms(1) POST_posts [of isUrl e req w]
    by (auto simp: lookup_def find_append_Some)
next
  case (GetPost id')
  then show ?thesis using assms by simp
next
  case (UpdatePost id' req)
  have "find (\<lambda>x. oid x = k) (update_first (\<lambda>x. oid x = k') (apply_update e data) (posts w)) =
          find (\<lambda>x. oid x = k) (posts w)" if "k' \<noteq> k" for k' data
    using that by (intro find_update_first_other) (auto simp: apply_update_def)
  then show ?thesis
    using UpdatePost assms PUT_posts [of isUrl e id' req w]
    by (auto simp: lookup_def)
next
  case (DeletePost id')
  have "find (\<lambda>x. oid x = k) (delete_first (\<lambda>x. oid x = k') (posts w)) =
          find (\<lambda>x. oid x = k) (posts w)" if "k' \<noteq> k" for k'
    using that by (intro find_delete_first_other) auto
  then show ?thesis
    using DeletePost assms DELETE_posts [of e id' w]
    by (auto simp: lookup_def)
qed

lemma connectToDB_connection: "connection w \<Longrightarrow> connection (snd (connectToDB e w))"
  by (simp add: connectToDB_def called_def Let_def)

lemma handle_connection_kept:
  assumes "connection w"
  shows "connection (snd (handle isUrl e r w))"
proof (cases r)
  case ListPosts
  then show ?thesis using assms
    by (auto simp: GET_posts_def GET_posts_try_def Post_find_def io_defs Let_def)
next
  case (CreatePost req)
  then show ?thesis using assms
    by (auto simp: POST_def POST_try_def Post_save_def io_defs Let_def
        split: option.splits sum.splits)
next
  case (GetPost id')
  then show ?thesis using assms
    by (auto simp: GET_def GET_try_def Post_findById_def io_defs Let_def
        split: option.splits)
next
  case (UpdatePost id' req)
  then show ?thesis using assms
    by (auto simp: PUT_def PUT_try_def Post_findByIdAndUpdate_def io_defs Let_def
        split: option.splits sum.splits)
next
  case (DeletePost id')
  then show ?thesis using assms
    by (auto simp: DELETE_def DELETE_try_def Post_findByIdAndDelete_def io_defs Let_def
        split: option.splits)
qed

lemma run_kept:
  "lookup k (posts w) = Some d \<Longrightarrow> connection w \<Longrightarrow> leaves_alone k steps \<Longrightarrow>
   lookup k (posts (run isUrl steps w)) = Some d \<and> connection (run isUrl steps w)"
proof (induction steps arbitrary: w)
  case Nil
  then show ?case by simp
next
  case (Cons step steps)
  obtain e r where step: "step = (e, r)" by (cases step)
  with Cons.prems have "\<not> touches k r" and rest: "leaves_alone k steps"
    by (simp_all add: leaves_alone_def)
  then have "lookup k (posts (snd (handle isUrl e r w))) = Some d"
    using Cons.prems(1) handle_lookup_kept by blast
  moreover have "connection (snd (handle isUrl e r w))"
    using Cons.prems(2) by (rule handle_connection_kept)
  ultimately show ?case
    using Cons.IH [OF _ _ rest] step by simp
qed

lemma POST_effect: "\<not> passes_validator isUrl req \<Longrightarrow> snd (POST isUrl e req w) = w"
  by (auto simp: passes_validator_def POST_def POST_try_def await_def req_json_def return_def
      throw_def split: option.splits sum.splits)

lemma PUT_effect:
  "\<not> (ObjectId_isValid id' \<and> passes_validator isUrl req) \<Longrightarrow> snd (PUT isUrl e id' req w) = w"
  by (auto simp: passes_validator_def PUT_def PUT_try_def await_def req_json_def return_def
      throw_def split: option.splits sum.splits)

section \<open>Evaluating the samples\<close>

lemmas example_defs = example_env_def example_world_def example_post_def empty_world_def

lemmas eval_defs = castObjectId_def ObjectId_isValid_def hexval_def fromHex_def lookup_def
  await_def req_json_def return_def throw_def called_def connectToDB_def

lemma parse_ok: "safeParse example_isUrl (example_body c) =
   Inr \<lparr>data_author = ''John Doe'', data_title = ''My First Post'',
        data_description = ''This is a sample post description.'',
        data_imageUrl = ''https://example.com/image.jpg'', data_createdAt = c\<rparr>"
  by (simp add: safeParse_def example_body_def object_issues_def postSchema_def z_string_def
      example_isUrl_def)

section \<open>Malformed identifiers\<close>

text \<open>
  With an identifier that is not a well-formed ObjectId no handler operates on a
  document, and the store is unchanged. \<open>PUT\<close> answers before anything else happens;
  \<open>GET\<close> and \<open>DELETE\<close> have called \<open>connectToDB\<close> by then, and answer 400 when that
  call succeeds.
\<close>

lemma malformed_id_no_document_call:
  assumes "\<not> ObjectId_isValid id'"
  shows "document_calls (calls (snd (GET e id' w))) = document_calls (calls w)"
    and "document_calls (calls (snd (DELETE e id' w))) = document_calls (calls w)"
    and "posts (snd (GET e id' w)) = posts w"
    and "posts (snd (DELETE e id' w)) = posts w"
    and "connection_available e w \<Longrightarrow> status (fst (GET e id' w)) = 400"
    and "connection_available e w \<Longrightarrow> status (fst (DELETE e id' w)) = 400"
    and "id' = [] \<Longrightarrow> DELETE e id' w = (\<lparr>status = 400, body = ErrorObj ''ID is required''\<rparr>, w)"
  using assms
  by (auto simp: GET_def GET_try_def DELETE_def DELETE_try_def document_calls_def
      connection_available_def io_defs Let_def)

text \<open>
  Claim C1. A fetch, update or delete with a malformed identifier is to be answered
  with status 400 before any access to the database, the acquisition of the connection
  included. \<open>PUT\<close> does so. \<open>GET\<close> and \<open>DELETE\<close> acquire the connection first: with
  the identifier \<open>abc\<close> the call \<open>ConnectToDB\<close> is on record when the 400 is returned,
  and when the database cannot be reached the answer is 500.
\<close>

theorem GET_DELETE_connect_before_id_check:
  "\<not> ObjectId_isValid ''abc'' \<and>
   GET example_env ''abc'' empty_world =
     (\<lparr>status = 400, body = ErrorObj ''Invalid ID format''\<rparr>,
      \<lparr>posts = [], connection = True, calls = [ConnectToDB]\<rparr>) \<and>
   DELETE example_env ''abc'' empty_world =
     (\<lparr>status = 400, body = ErrorObj ''Invalid ID format''\<rparr>,
      \<lparr>posts = [], connection = True, calls = [ConnectToDB]\<rparr>) \<and>
   GET (example_env\<lparr>db_reachable := False\<rparr>) ''abc'' empty_world =
     (\<lparr>status = 500, body = ErrorObj ''Failed to fetch post''\<rparr>,
      \<lparr>posts = [], connection = False, calls = [ConnectToDB]\<rparr>) \<and>
   PUT example_isUrl example_env ''abc'' None empty_world =
     (\<lparr>status = 400, body = ErrorObj ''Invalid ID format''\<rparr>, empty_world)"
  by (simp add: GET_def GET_try_def DELETE_def DELETE_try_def PUT_def eval_defs example_defs)

text \<open>
  Claim C9. An update whose path identifier is not a well-formed ObjectId is answered
  with status 400 and the error ``Invalid ID format'', whatever the body: the identifier
  is checked before the body is read, so a body that does not parse (\<open>None\<close>) or does
  not validate gets the same answer, and nothing else happens.
\<close>

theorem PUT_malformed_id_before_body:
  "\<not> ObjectId_isValid id' \<Longrightarrow>
   PUT isUrl e id' req w = (\<lparr>status = 400, body = ErrorObj ''Invalid ID format''\<rparr>, w)"
  by (simp add: PUT_def)

theorem PUT_malformed_id_before_body_witness:
  "\<not> ObjectId_isValid ''abc'' \<and>
   PUT example_isUrl example_env ''abc'' None example_world =
     (\<lparr>status = 400, body = ErrorObj ''Invalid ID format''\<rparr>, example_world)"
proof -
  have h: "\<not> ObjectId_isValid ''abc''" by (simp add: ObjectId_isValid_def)
  show ?thesis using h PUT_malformed_id_before_body [OF h] by simp
qed

section \<open>Identifiers of no stored post\<close>

text \<open>
  Claim C6 as stated fails for an update: the payload is validated before the post is
  looked up, so an update of a post that does not exist with a payload that does not
  validate is answered with 400, not 404.
\<close>

theorem missing_post_PUT_invalid_payload_400:
  "castObjectId ''000000000000000000000007'' = Some 7 \<and>
   lookup 7 (posts example_world) = None \<and>
   PUT example_isUrl example_env ''000000000000000000000007''
     (Some (JObject [(''title'', JString ''New title'')])) example_world =
   (\<lparr>status = 400,
      body = IssueList
        [\<lparr>code = invalid_type, path = [''author''], message = ''Required''\<rparr>,
         \<lparr>code = invalid_type, path = [''description''], message = ''Required''\<rparr>,
         \<lparr>code = invalid_type, path = [''imageUrl''], message = ''Required''\<rparr>,
         \<lparr>code = invalid_type, path = [''createdAt''], message = ''Required''\<rparr>]\<rparr>,
    example_world)"
  by (simp add: castObjectId_def ObjectId_isValid_def hexval_def fromHex_def lookup_def
      example_world_def example_post_def PUT_def PUT_try_def await_def req_json_def return_def
      safeParse_def object_issues_def postSchema_def z_string_def invalid_type_issue_def)

text \<open>
  Claim C6, amended. With a well-formed identifier of no stored post, and the
  connection to be had, a fetch and a delete are answered with status 404, and so is an
  update whose payload passes the validator with a \<open>createdAt\<close> that is not empty; the
  store is unchanged in each case.
\<close>

theorem missing_post_404:
  assumes "castObjectId id' = Some k" and "lookup k (posts w) = None"
    and "connection_available e w"
  shows "status (fst (GET e id' w)) = 404 \<and>
         status (fst (DELETE e id' w)) = 404 \<and>
         (passes_validator isUrl req \<and> createdAt_given req \<longrightarrow>
            status (fst (PUT isUrl e id' req w)) = 404) \<and>
         posts (snd (GET e id' w)) = posts w \<and>
         posts (snd (DELETE e id' w)) = posts w \<and>
         posts (snd (PUT isUrl e id' req w)) = posts w"
proof -
  have "status (fst (PUT isUrl e id' req w)) = 404"
    if "passes_validator isUrl req" and "createdAt_given req"
  proof -
    from that(1) obtain b data where req: "req = Some b" and parse: "safeParse isUrl b = Inr data"
      using passes_validator_cases by blast
    with that(2) have "data_createdAt data \<noteq> []"
      using createdAt_given_data by blast
    then show ?thesis using PUT_missing [OF assms parse] req by simp
  qed
  moreover have "posts (snd (PUT isUrl e id' req w)) = posts w"
    using PUT_posts [of isUrl e id' req w] assms(1,2)
    by (auto simp: lookup_def update_first_none)
  ultimately show ?thesis
    using GET_missing [OF assms] DELETE_missing [OF assms] by simp
qed

theorem missing_post_404_witness:
  "status (fst (GET example_env ''000000000000000000000007'' example_world)) = 404 \<and>
   status (fst (DELETE example_env ''000000000000000000000007'' example_world)) = 404 \<and>
   status (fst (PUT example_isUrl example_env ''000000000000000000000007''
                  (Some (example_body ''2023-01-01T00:00:00.000Z'')) example_world)) = 404"
proof -
  have c: "castObjectId ''000000000000000000000007'' = Some 7"
    by (simp add: castObjectId_def ObjectId_isValid_def hexval_def fromHex_def)
  have l: "lookup 7 (posts example_world) = None"
    by (simp add: lookup_def example_world_def example_post_def)
  have a: "connection_available example_env example_world"
    by (simp add: connection_available_def example_world_def)
  have p: "passes_validator example_isUrl (Some (example_body ''2023-01-01T00:00:00.000Z''))"
    by (simp add: passes_validator_def parse_ok)
  have g: "createdAt_given (Some (example_body ''2023-01-01T00:00:00.000Z''))"
    by (simp add: createdAt_given_def example_body_def)
  show ?thesis
    using missing_post_404 [OF c l a, of example_isUrl
        "Some (example_body ''2023-01-01T00:00:00.000Z'')"] p g
    by simp
qed

section \<open>Updates\<close>

text \<open>
  Claim C7 as stated fails for \<open>createdAt\<close>: the schema has \<open>timestamps\<close>, which keeps
  the \<open>createdAt\<close> of a document out of an update. The post created when the clock read
  1600000000000 (2020-09-13) keeps that \<open>createdAt\<close> under an update whose payload has
  2023-01-01T00:00:00.000Z, and a payload that differs in \<open>createdAt\<close> only has the
  same outcome.
\<close>

theorem PUT_keeps_createdAt:
  "PUT example_isUrl example_env ''000000000000000000000005''
     (Some (example_body ''2023-01-01T00:00:00.000Z'')) example_world =
   (\<lparr>status = 200,
      body = Updated ''Post updated successfully''
        \<lparr>oid = 5, author = ''John Doe'', title = ''My First Post'',
         description = ''This is a sample post description.'',
         imageUrl = ''https://example.com/image.jpg'',
         createdAt = 1600000000000, updatedAt = 1700000000000\<rparr>\<rparr>,
    \<lparr>posts = [\<lparr>oid = 5, author = ''John Doe'', title = ''My First Post'',
               description = ''This is a sample post description.'',
               imageUrl = ''https://example.com/image.jpg'',
               createdAt = 1600000000000, updatedAt = 1700000000000\<rparr>],
     connection = True,
     calls = [ConnectToDB, FindByIdAndUpdate ''000000000000000000000005'']\<rparr>) \<and>
   PUT example_isUrl example_env ''000000000000000000000005''
     (Some (example_body ''1999-12-31T23:59:59.000Z'')) example_world =
   PUT example_isUrl example_env ''000000000000000000000005''
     (Some (example_body ''2023-01-01T00:00:00.000Z'')) example_world"
  by (simp add: PUT_def PUT_try_def Post_findByIdAndUpdate_def apply_update_def parse_ok
      eval_defs example_defs)

text \<open>
  Claim C7, amended. An update with the well-formed identifier of a stored post and a
  payload that passes the validator with a \<open>createdAt\<close> that is not empty, the
  connection to be had, sets author, title, description and imageUrl of the stored post
  to those of the payload and \<open>updatedAt\<close> to the current time, leaves its
  \<open>createdAt\<close> as it is, and is answered with status 200 and the post as updated.
\<close>

theorem PUT_replaces_fields:
  assumes "castObjectId id' = Some k" and "lookup k (posts w) = Some d"
    and "connection_available e w" and "safeParse isUrl b = Inr data"
    and "data_createdAt data \<noteq> []"
  shows "fst (PUT isUrl e id' (Some b) w) =
           \<lparr>status = 200,
            body = Updated ''Post updated successfully''
              (d\<lparr>author := data_author data, title := data_title data,
                 description := data_description data, imageUrl := data_imageUrl data,
                 updatedAt := time_now e\<rparr>)\<rparr> \<and>
         lookup k (posts (snd (PUT isUrl e id' (Some b) w))) =
           Some (d\<lparr>author := data_author data, title := data_title data,
                   description := data_description data, imageUrl := data_imageUrl data,
                   updatedAt := time_now e\<rparr>)"
proof -
  have k: "oid d = k"
    using assms(2) find_Some_holds [of "\<lambda>x. oid x = k" "posts w" d] by (simp add: lookup_def)
  have "lookup k (update_first (\<lambda>x. oid x = k) (apply_update e data) (posts w)) =
          Some (apply_update e data d)"
    unfolding lookup_def using assms(2) k
    by (intro find_update_first) (simp_all add: lookup_def apply_update_def)
  then show ?thesis
    using PUT_found [OF assms] by (simp add: apply_update_def)
qed

theorem PUT_replaces_fields_witness:
  "fst (PUT example_isUrl example_env ''000000000000000000000005''
          (Some (example_body ''2023-01-01T00:00:00.000Z'')) example_world) =
     \<lparr>status = 200,
      body = Updated ''Post updated successfully''
        (example_post\<lparr>author := ''John Doe'', title := ''My First Post'',
           description := ''This is a sample post description.'',
           imageUrl := ''https://example.com/image.jpg'',
           updatedAt := 1700000000000\<rparr>)\<rparr>"
proof -
  have c: "castObjectId ''000000000000000000000005'' = Some 5"
    by (simp add: eval_defs)
  have l: "lookup 5 (posts example_world) = Some example_post"
    by (simp add: lookup_def example_defs)
  have a: "connection_available example_env example_world"
    by (simp add: connection_available_def example_defs)
  show ?thesis
    using PUT_replaces_fields [OF c l a parse_ok, of "''2023-01-01T00:00:00.000Z''"]
    by (simp add: example_env_def)
qed

section \<open>Creation\<close>

text \<open>
  Whenever \<open>POST\<close> adds a post, the body is an object with a string \<open>createdAt\<close>, and
  the post added has the reading of the clock as its \<open>createdAt\<close>: the handler passes
  title, description, imageUrl and author to \<open>new Post\<close>, and nothing else.
\<close>

lemma POST_createdAt_is_clock:
  assumes "posts (snd (POST isUrl e req w)) \<noteq> posts w"
  shows "\<exists>kvs. req = Some (JObject kvs) \<and> is_string (map_of kvs ''createdAt'') \<and>
           posts (snd (POST isUrl e req w)) =
             posts w @ [\<lparr>oid = generated_id e, author = string_member kvs ''author'',
                         title = string_member kvs ''title'',
                         description = string_member kvs ''description'',
                         imageUrl = string_member kvs ''imageUrl'',
                         createdAt = time_now e, updatedAt = time_now e\<rparr>]"
proof -
  from assms POST_posts [of isUrl e req w]
  obtain b data where req: "req = Some b" and parse: "safeParse isUrl b = Inr data"
    and p: "posts (snd (POST isUrl e req w)) =
        posts w @ [new_Post e (data_title data) (data_description data)
                     (data_imageUrl data) (data_author data)]"
    by blast
  from parse obtain kvs where b: "b = JObject kvs" and c: "satisfies_constraints isUrl kvs"
    and data: "data = \<lparr>data_author = string_member kvs ''author'',
                data_title = string_member kvs ''title'',
                data_description = string_member kvs ''description'',
                data_imageUrl = string_member kvs ''imageUrl'',
                data_createdAt = string_member kvs ''createdAt''\<rparr>"
    unfolding safeParse_Inr_iff by blast
  have "is_string (map_of kvs ''createdAt'')"
    using c by (simp add: satisfies_constraints_def del: string_member.simps)
  then show ?thesis
    using req b p data by (simp add: new_Post_def del: string_member.simps)
qed

text \<open>
  Claim C2. On creation the persisted \<open>createdAt\<close> is to be the value the client
  supplied. The handler does not hand that value to the document: the body of the
  swagger example, with \<open>createdAt\<close> 2023-01-01T00:00:00.000Z, sent when the clock reads
  1700000000000 (2023-11-14), is stored with \<open>createdAt = 1700000000000\<close>, and a body
  that differs in \<open>createdAt\<close> only is stored as the same document.
\<close>

theorem POST_drops_createdAt:
  "POST example_isUrl example_env (Some (example_body ''2023-01-01T00:00:00.000Z'')) empty_world =
   (\<lparr>status = 201, body = JsonText ''Post has been created''\<rparr>,
    \<lparr>posts = [\<lparr>oid = 6, author = ''John Doe'', title = ''My First Post'',
               description = ''This is a sample post description.'',
               imageUrl = ''https://example.com/image.jpg'',
               createdAt = 1700000000000, updatedAt = 1700000000000\<rparr>],
     connection = True, calls = [ConnectToDB, Save 6]\<rparr>) \<and>
   POST example_isUrl example_env (Some (example_body ''1999-12-31T23:59:59.000Z'')) empty_world =
   POST example_isUrl example_env (Some (example_body ''2023-01-01T00:00:00.000Z'')) empty_world"
  by (simp add: POST_def POST_try_def Post_save_def new_Post_def parse_ok eval_defs example_defs)

text \<open>
  Claim C8. A creation request whose body has all the fields the validator asks for,
  with an image URL that is a URL, is answered with status 201. From then on, through
  any further requests that do not update or delete the new post, a fetch by the
  identifier given to it is answered with status 200 and that post; a fetch by any
  other identifier is answered as the store before the creation has it, so it is the
  identifier that retrieves the post. The connection can be had, and the identifier
  generated for the document is not that of a stored post.
\<close>

theorem create_then_fetch:
  assumes "satisfies_constraints isUrl kvs" and "string_member kvs ''imageUrl'' \<noteq> []"
    and "connection_available e w" and "lookup (generated_id e) (posts w) = None"
    and "leaves_alone (generated_id e) steps"
  shows "fst (POST isUrl e (Some (JObject kvs)) w) =
           \<lparr>status = 201, body = JsonText ''Post has been created''\<rparr> \<and>
         fst (GET e' (toHexString (generated_id e))
                (run isUrl steps (snd (POST isUrl e (Some (JObject kvs)) w)))) =
           \<lparr>status = 200,
            body = PostDoc
              \<lparr>oid = generated_id e, author = string_member kvs ''author'',
               title = string_member kvs ''title'',
               description = string_member kvs ''description'',
               imageUrl = string_member kvs ''imageUrl'',
               createdAt = time_now e, updatedAt = time_now e\<rparr>\<rparr> \<and>
         (castObjectId id' = Some k \<and> k \<noteq> generated_id e \<longrightarrow>
            fst (GET e' id' (snd (POST isUrl e (Some (JObject kvs)) w))) =
              fetched (lookup k (posts w)))"
proof -
  define data where "data =
     \<lparr>data_author = string_member kvs ''author'', data_title = string_member kvs ''title'',
      data_description = string_member kvs ''description'',
      data_imageUrl = string_member kvs ''imageUrl'',
      data_createdAt = string_member kvs ''createdAt''\<rparr>"
  define d where "d = new_Post e (data_title data) (data_description data)
                        (data_imageUrl data) (data_author data)"
  have parse: "safeParse isUrl (JObject kvs) = Inr data"
    unfolding safeParse_Inr_iff data_def using assms(1) by blast
  have img: "data_imageUrl data \<noteq> []"
    using assms(2) by (simp add: data_def del: string_member.simps)
  have post: "POST isUrl e (Some (JObject kvs)) w =
           (\<lparr>status = 201, body = JsonText ''Post has been created''\<rparr>,
            w\<lparr>connection := True, calls := calls w @ [ConnectToDB, Save (generated_id e)],
              posts := posts w @ [d]\<rparr>)"
    unfolding d_def by (rule POST_created [OF parse assms(3) assms(4) img])
  let ?w1 = "snd (POST isUrl e (Some (JObject kvs)) w)"
  have oid: "oid d = generated_id e"
    by (simp add: d_def new_Post_def)
  have new: "lookup (generated_id e) (posts ?w1) = Some d"
    using assms(4) find_append_new [of "\<lambda>x. oid x = generated_id e" "posts w" d] oid
    by (simp add: post lookup_def)
  have conn: "connection ?w1"
    by (simp add: post)
  have later: "lookup (generated_id e) (posts (run isUrl steps ?w1)) = Some d \<and>
               connection (run isUrl steps ?w1)"
    using new conn assms(5) by (rule run_kept)
  then have "fst (GET e' (toHexString (generated_id e)) (run isUrl steps ?w1)) =
      \<lparr>status = 200, body = PostDoc d\<rparr>"
    by (intro GET_found [OF castObjectId_toHexString]) (simp_all add: connection_available_def)
  moreover have "fst (GET e' id' ?w1) = fetched (lookup k (posts w))"
    if "castObjectId id' = Some k" and "k \<noteq> generated_id e"
  proof -
    have "lookup k (posts ?w1) = lookup k (posts w)"
      using that(2) oid find_snoc_other [of "\<lambda>x. oid x = k" d "posts w"]
      by (simp add: post lookup_def)
    moreover have "connection_available e' ?w1"
      using conn by (simp add: connection_available_def)
    ultimately show ?thesis
      using GET_fetched [OF that(1)] by simp
  qed
  ultimately show ?thesis
    by (simp add: post d_def data_def new_Post_def del: string_member.simps)
qed

theorem create_then_fetch_witness:
  "fst (POST example_isUrl example_env (Some (example_body ''2023-01-01T00:00:00.000Z''))
          example_world) =
     \<lparr>status = 201, body = JsonText ''Post has been created''\<rparr> \<and>
   fst (GET example_env (toHexString 6)
          (run example_isUrl
             [(example_env, UpdatePost ''000000000000000000000005''
                 (Some (example_body ''2024-06-30T12:00:00.000Z''))),
              (example_env, CreatePost (Some (example_body ''2024-06-30T12:00:00.000Z''))),
              (example_env, DeletePost ''000000000000000000000005'')]
             (snd (POST example_isUrl example_env
                     (Some (example_body ''2023-01-01T00:00:00.000Z'')) example_world)))) =
     \<lparr>status = 200,
      body = PostDoc
        \<lparr>oid = 6, author = ''John Doe'', title = ''My First Post'',
         description = ''This is a sample post description.'',
         imageUrl = ''https://example.com/image.jpg'',
         createdAt = 1700000000000, updatedAt = 1700000000000\<rparr>\<rparr> \<and>
   fst (GET example_env ''000000000000000000000005''
          (snd (POST example_isUrl example_env
                  (Some (example_body ''2023-01-01T00:00:00.000Z'')) example_world))) =
     \<lparr>status = 200, body = PostDoc example_post\<rparr>"
proof -
  let ?kvs = "[(''author'', JString ''John Doe''), (''title'', JString ''My First Post''),
      (''description'', JString ''This is a sample post description.''),
      (''imageUrl'', JString ''https://example.com/image.jpg''),
      (''createdAt'', JString ''2023-01-01T00:00:00.000Z'')]"
  let ?steps = "[(example_env, UpdatePost ''000000000000000000000005''
                    (Some (example_body ''2024-06-30T12:00:00.000Z''))),
                 (example_env, CreatePost (Some (example_body ''2024-06-30T12:00:00.000Z''))),
                 (example_env, DeletePost ''000000000000000000000005'')]"
  have c: "satisfies_constraints example_isUrl ?kvs"
    by (simp add: satisfies_constraints_def is_string_def example_isUrl_def)
  have i: "string_member ?kvs ''imageUrl'' \<noteq> []" by simp
  have a: "connection_available example_env example_world"
    by (simp add: connection_available_def example_defs)
  have l: "lookup (generated_id example_env) (posts example_world) = None"
    by (simp add: lookup_def example_defs)
  have five: "castObjectId ''000000000000000000000005'' = Some 5"
    by (simp add: eval_defs)
  have s: "leaves_alone (generated_id example_env) ?steps"
    by (simp add: leaves_alone_def five example_env_def)
  have other: "castObjectId ''000000000000000000000005'' = Some 5 \<and>
               (5 :: objectid) \<noteq> generated_id example_env"
    by (simp add: five example_env_def)
  have old: "fetched (lookup 5 (posts example_world)) =
               \<lparr>status = 200, body = PostDoc example_post\<rparr>"
    by (simp add: fetched_def lookup_def example_defs)
  show ?thesis
    using create_then_fetch [OF c i a l s, of example_env "''000000000000000000000005''" 5]
      other old
    by (simp add: example_body_def example_env_def)
qed

section \<open>Requests that are turned away\<close>

text \<open>
  Claim C10. A creation request whose body is not JSON is answered with status 500 and
  the message ``Failed to create Post'', not with a validation error, and the store is
  as it was: no call to the database is made.
\<close>

theorem POST_unparseable_body:
  "POST isUrl e None w = (\<lparr>status = 500, body = ErrorObj ''Failed to create Post''\<rparr>, w)"
  by (simp add: POST_def POST_try_def io_defs)

text \<open>
  Claim C3. An update whose payload fails validation is answered with status 400 and
  leaves everything as it was: the stored posts are unchanged and no call to the
  database is made. (A body that is not JSON does not reach the validator; it leaves
  everything as it was, too.)
\<close>

theorem PUT_invalid_payload:
  "safeParse isUrl b = Inl issues \<Longrightarrow>
   status (fst (PUT isUrl e id' (Some b) w)) = 400 \<and>
   snd (PUT isUrl e id' (Some b) w) = w \<and>
   snd (PUT isUrl e id' None w) = w"
  by (simp add: PUT_def PUT_try_def io_defs)

theorem PUT_invalid_payload_witness:
  "safeParse example_isUrl (JObject [(''title'', JString ''New title'')]) =
     Inl (object_issues example_isUrl [(''title'', JString ''New title'')]) \<and>
   status (fst (PUT example_isUrl example_env ''000000000000000000000005''
                  (Some (JObject [(''title'', JString ''New title'')])) example_world)) = 400 \<and>
   snd (PUT example_isUrl example_env ''000000000000000000000005''
          (Some (JObject [(''title'', JString ''New title'')])) example_world) = example_world"
proof -
  have "object_issues example_isUrl [(''title'', JString ''New title'')] \<noteq> []"
    by (simp add: object_issues_def postSchema_def z_string_def)
  then have h: "safeParse example_isUrl (JObject [(''title'', JString ''New title'')]) =
      Inl (object_issues example_isUrl [(''title'', JString ''New title'')])"
    by (rule safeParse_object_issues)
  show ?thesis using h PUT_invalid_payload [OF h] by simp
qed

text \<open>
  Claim C5 as stated fails for a body that is not an object: \<open>null\<close> lacks every field
  of the schema, and is answered with status 400 and one error, which has no field.
\<close>

theorem POST_null_body_names_no_field:
  "POST example_isUrl example_env (Some JNull) empty_world =
     (\<lparr>status = 400,
        body = FieldErrors [\<lparr>field = None, msg = ''Expected object, received null''\<rparr>]\<rparr>,
      empty_world)"
  by (simp add: POST_def POST_try_def safeParse_def invalid_type_issue_def issue_field_def
      eval_defs example_defs)

text \<open>
  Claim C5, amended. A creation request whose body is an object in which a field of the
  schema (author, title, description, imageUrl, createdAt) is absent or not a string,
  or in which imageUrl is not a URL, is answered with status 400 and a list of errors
  one of which has that field as its \<open>field\<close>. A body that is not an object is
  answered with status 400 and a single error without a field.
\<close>

theorem POST_names_offending_field:
  "((k \<in> set (map fst postSchema) \<and> \<not> is_string (map_of kvs k)) \<or>
    (k = ''imageUrl'' \<and> \<not> isUrl (string_member kvs ''imageUrl'')) \<longrightarrow>
      (\<exists>errs. POST isUrl e (Some (JObject kvs)) w =
                 (\<lparr>status = 400, body = FieldErrors errs\<rparr>, w) \<and>
               (\<exists>x \<in> set errs. field x = Some k))) \<and>
   ((\<forall>kvs. b \<noteq> JObject kvs) \<longrightarrow>
      POST isUrl e (Some b) w =
        (\<lparr>status = 400,
           body = FieldErrors
             [\<lparr>field = None, msg = ''Expected object, received '' @ getParsedType (Some b)\<rparr>]\<rparr>,
         w))"
proof (intro conjI impI)
  assume offending: "(k \<in> set (map fst postSchema) \<and> \<not> is_string (map_of kvs k)) \<or>
    (k = ''imageUrl'' \<and> \<not> isUrl (string_member kvs ''imageUrl''))"
  have "\<exists>i \<in> set (object_issues isUrl kvs). path i = [k]"
    using offending
  proof
    assume "k \<in> set (map fst postSchema) \<and> \<not> is_string (map_of kvs k)"
    then obtain checks where "(k, checks) \<in> set postSchema" and "\<not> is_string (map_of kvs k)"
      by auto
    then show ?thesis
      by (intro object_issues_names_field [of k checks]) (simp_all add: z_string_not_string)
  next
    assume "k = ''imageUrl'' \<and> \<not> isUrl (string_member kvs ''imageUrl'')"
    then have k: "k = ''imageUrl''" and u: "\<not> isUrl (string_member kvs k)"
      by simp_all
    from k have "(k, [Url]) \<in> set postSchema" by (simp add: postSchema_def)
    moreover have "z_string isUrl [Url] [k] (map_of kvs k) \<noteq> []"
      using u unfolding z_string_Url_empty by blast
    ultimately show ?thesis by (rule object_issues_names_field)
  qed
  then obtain i where i: "i \<in> set (object_issues isUrl kvs)" "path i = [k]"
    by blast
  then have ne: "object_issues isUrl kvs \<noteq> []" by auto
  have "POST isUrl e (Some (JObject kvs)) w =
          (\<lparr>status = 400, body = FieldErrors (map issue_field (object_issues isUrl kvs))\<rparr>, w)"
    by (rule POST_invalid) (rule safeParse_object_issues [OF ne])
  moreover have "\<exists>x \<in> set (map issue_field (object_issues isUrl kvs)). field x = Some k"
    using i issue_field_path [of i k "[]"] by auto
  ultimately show "\<exists>errs. POST isUrl e (Some (JObject kvs)) w =
                 (\<lparr>status = 400, body = FieldErrors errs\<rparr>, w) \<and>
               (\<exists>x \<in> set errs. field x = Some k)"
    by blast
next
  assume "\<forall>kvs. b \<noteq> JObject kvs"
  then have "safeParse isUrl b = Inl [invalid_type_issue ''object'' [] (Some b)]"
    by (cases b) (simp_all add: safeParse_def)
  then show "POST isUrl e (Some b) w =
        (\<lparr>status = 400,
           body = FieldErrors
             [\<lparr>field = None, msg = ''Expected object, received '' @ getParsedType (Some b)\<rparr>]\<rparr>,
         w)"
    using POST_invalid [of isUrl b _ e w] by (simp add: issue_field_def invalid_type_issue_def)
qed

theorem POST_names_offending_field_witness:
  "(\<exists>errs. POST example_isUrl example_env
            (Some (JObject [(''author'', JString ''John Doe''), (''imageUrl'', JNumber 5)]))
            empty_world = (\<lparr>status = 400, body = FieldErrors errs\<rparr>, empty_world) \<and>
          (\<exists>x \<in> set errs. field x = Some ''imageUrl'')) \<and>
   POST example_isUrl example_env (Some (JArray [])) empty_world =
     (\<lparr>status = 400,
        body = FieldErrors [\<lparr>field = None, msg = ''Expected object, received array''\<rparr>]\<rparr>,
      empty_world)"
proof -
  have f: "''imageUrl'' \<in> set (map fst postSchema)"
    by (simp add: postSchema_fields)
  have n: "\<not> is_string (map_of [(''author'', JString ''John Doe''), (''imageUrl'', JNumber 5)]
                          ''imageUrl'')"
    by (simp add: is_string_def)
  have a: "\<forall>kvs. JArray [] \<noteq> JObject kvs" by simp
  show ?thesis
    using f n a
      POST_names_offending_field [of "''imageUrl''"
        "[(''author'', JString ''John Doe''), (''imageUrl'', JNumber 5)]"
        example_isUrl example_env empty_world "JArray []"]
    by simp
qed

section \<open>The store holds validated posts only\<close>

text \<open>
  Claim C4. \<open>POST\<close> and \<open>PUT\<close> have an effect (a call to the database, a change of the
  store) only when the whole payload has passed the validator, that is, when it is an
  object with non-empty strings as author, title and description, a URL as imageUrl and
  a string as createdAt. So the fields a stored post shares with the payload satisfy
  the constraints of the validator, in every store reached by requests from one that
  does: \<open>store_valid\<close> is an invariant of the handlers.
\<close>

theorem writes_follow_validation:
  "(snd (POST isUrl e req w) \<noteq> w \<longrightarrow> passes_validator isUrl req) \<and>
   (snd (PUT isUrl e id' req w) \<noteq> w \<longrightarrow> passes_validator isUrl req) \<and>
   (passes_validator isUrl req \<longrightarrow>
      (\<exists>kvs. req = Some (JObject kvs) \<and> satisfies_constraints isUrl kvs)) \<and>
   (store_valid isUrl (posts w) \<longrightarrow> store_valid isUrl (posts (run isUrl steps w)))"
  using POST_effect [of isUrl req e w] PUT_effect [of id' isUrl req e w]
    run_store_valid [of isUrl w steps] passes_validator_iff [of isUrl req]
  by blast

theorem writes_follow_validation_witness:
  "snd (POST example_isUrl example_env
          (Some (example_body ''2023-01-01T00:00:00.000Z'')) example_world) \<noteq> example_world \<and>
   snd (PUT example_isUrl example_env ''000000000000000000000005''
          (Some (example_body ''2023-01-01T00:00:00.000Z'')) example_world) \<noteq> example_world \<and>
   passes_validator example_isUrl (Some (example_body ''2023-01-01T00:00:00.000Z'')) \<and>
   satisfies_constraints example_isUrl
     [(''author'', JString ''John Doe''), (''title'', JString ''My First Post''),
      (''description'', JString ''This is a sample post description.''),
      (''imageUrl'', JString ''https://example.com/image.jpg''),
      (''createdAt'', JString ''2023-01-01T00:00:00.000Z'')] \<and>
   store_valid example_isUrl (posts example_world) \<and>
   store_valid example_isUrl
     (posts (run example_isUrl
        [(example_env, CreatePost (Some (example_body ''2023-01-01T00:00:00.000Z''))),
         (example_env, UpdatePost ''000000000000000000000005''
            (Some (example_body ''2024-06-30T12:00:00.000Z''))),
         (example_env, DeletePost ''000000000000000000000006'')]
        example_world))"
proof -
  have created: "snd (POST example_isUrl example_env
      (Some (example_body ''2023-01-01T00:00:00.000Z'')) example_world) \<noteq> example_world"
    by (simp add: POST_def POST_try_def Post_save_def new_Post_def parse_ok eval_defs
        example_defs)
  have updated: "snd (PUT example_isUrl example_env ''000000000000000000000005''
      (Some (example_body ''2023-01-01T00:00:00.000Z'')) example_world) \<noteq> example_world"
    by (simp add: PUT_def PUT_try_def Post_findByIdAndUpdate_def apply_update_def parse_ok
        eval_defs example_defs)
  have valid: "store_valid example_isUrl (posts example_world)"
    by (simp add: store_valid_def post_valid_def example_isUrl_def example_defs)
  show ?thesis
    using created updated valid
      writes_follow_validation [of example_isUrl example_env
        "Some (example_body ''2023-01-01T00:00:00.000Z'')" example_world
        "''000000000000000000000005''"
        "[(example_env, CreatePost (Some (example_body ''2023-01-01T00:00:00.000Z''))),
          (example_env, UpdatePost ''000000000000000000000005''
             (Some (example_body ''2024-06-30T12:00:00.000Z''))),
          (example_env, DeletePost ''000000000000000000000006'')]"]
    by (auto simp: example_body_def)
qed

end
